theory Spec2Isabelle
  imports Main "HOL-Library.Sublist"
begin

section \<open>Strings\<close>

text \<open>
  A Python \<open>str\<close> is a sequence of Unicode code points. It is modelled as a list of
  code points, so that \<open>len\<close>, \<open>strip\<close>, \<open>startswith\<close> and the regular expression
  of the renderer count what Python counts. \<open>ascii\<close> lifts an ASCII literal.
\<close>

type_synonym ustr = "nat list"

definition ascii :: "string \<Rightarrow> ustr" where
  "ascii s = map of_char s"

text \<open>
  \<open>str.isspace\<close> of a single code point (the table of CPython, which \<open>str.strip()\<close>,
  \<open>str.split()\<close> and the class \<open>\s\<close> of \<open>re\<close> on \<open>str\<close> patterns share).
\<close>

definition isspace :: "nat \<Rightarrow> bool" where
  "isspace c =
     (c \<in> {9, 10, 11, 12, 13, 28, 29, 30, 31, 32, 133, 160, 5760,
            8232, 8233, 8239, 8287, 12288}
      \<or> (8192 \<le> c \<and> c \<le> 8202))"

text \<open>\<open>text.strip()\<close>: leading and trailing whitespace removed.\<close>

definition strip :: "ustr \<Rightarrow> ustr" where
  "strip s = rev (dropWhile isspace (rev (dropWhile isspace s)))"

text \<open>
  \<open>text.replace(old, new)\<close>: the occurrences of \<open>old\<close> are found from the left and do
  not overlap; an empty \<open>old\<close> matches before every code point and at the end.
\<close>

fun replace :: "ustr \<Rightarrow> ustr \<Rightarrow> ustr \<Rightarrow> ustr" where
  "replace old new [] = (if old = [] then new else [])"
| "replace old new (c # cs) =
     (if old = [] then new @ c # replace old new cs
      else if prefix old (c # cs) then new @ replace old new (drop (length old - 1) cs)
      else c # replace old new cs)"

text \<open>\<open>sep.join(parts)\<close>.\<close>

fun join :: "ustr \<Rightarrow> ustr list \<Rightarrow> ustr" where
  "join sep [] = []"
| "join sep [x] = x"
| "join sep (x # y # ys) = x @ sep @ join sep (y # ys)"

text \<open>\<open>text.split(sep)\<close> for a separator of one code point; \<open>''.split(sep)\<close> is \<open>['']\<close>.\<close>

fun split_char :: "nat \<Rightarrow> ustr \<Rightarrow> ustr list" where
  "split_char sep [] = [[]]"
| "split_char sep (c # cs) =
     (if c = sep then [] # split_char sep cs
      else (case split_char sep cs of [] \<Rightarrow> [[c]] | l # ls \<Rightarrow> (c # l) # ls))"

text \<open>\<open>sub in text\<close> on strings.\<close>

fun contains :: "ustr \<Rightarrow> ustr \<Rightarrow> bool" where
  "contains sub [] = (sub = [])"
| "contains sub (c # cs) = (prefix sub (c # cs) \<or> contains sub cs)"

text \<open>\<open>str(n)\<close> of a natural number: its decimal digits.\<close>

fun str_nat :: "nat \<Rightarrow> ustr" where
  "str_nat n = (if n < 10 then [48 + n] else str_nat (n div 10) @ [48 + n mod 10])"

declare str_nat.simps [simp del]

section \<open>convert\_ppt\_to\_html.py\<close>

subsection \<open>escape\_html\<close>

text \<open>
  The five replacements in the order of the source, the ampersand first. The argument is
  a string, so \<open>str(text)\<close> is the identity; \<open>not text\<close> is the test for the empty string.
  The apostrophe is the code point 39.
\<close>

definition escape_html :: "ustr \<Rightarrow> ustr" where
  "escape_html text =
     (if text = [] then []
      else
        let text = replace (ascii ''&'') (ascii ''&amp;'') text;
            text = replace (ascii ''<'') (ascii ''&lt;'') text;
            text = replace (ascii ''>'') (ascii ''&gt;'') text;
            text = replace (ascii ''\"'') (ascii ''&quot;'') text;
            text = replace [39] (ascii ''&#39;'') text
        in text)"

text \<open>
  Reading an escaped string: a raw \<open><\<close>, \<open>>\<close>, \<open>"\<close> or \<open>'\<close> needs escaping, and so does an
  ampersand that does not start one of the five entities.
\<close>

definition starts_entity :: "ustr \<Rightarrow> bool" where
  "starts_entity s =
     (prefix (ascii ''&amp;'') s \<or> prefix (ascii ''&lt;'') s \<or> prefix (ascii ''&gt;'') s
      \<or> prefix (ascii ''&quot;'') s \<or> prefix (ascii ''&#39;'') s)"

fun fully_escaped :: "ustr \<Rightarrow> bool" where
  "fully_escaped [] = True"
| "fully_escaped (c # cs) =
     (if c = 38 then starts_entity (c # cs) \<and> fully_escaped cs
      else c \<notin> {60, 62, 34, 39} \<and> fully_escaped cs)"

subsection \<open>Shapes and slides\<close>

text \<open>
  The presentation library is a black box. A shape is what the script reads of it:
  \<open>has_text_frame\<close>, \<open>shape_type\<close> (the library's enumeration value, or \<open>None\<close>), the
  attribute \<open>text\<close> when the shape has one (\<open>hasattr(shape, "text")\<close>), and the paragraph
  texts of \<open>text_frame\<close> when it has one. A slide is the sequence \<open>slide.shapes\<close>, a deck
  the sequence \<open>prs.slides\<close>.
\<close>

record shape =
  has_text_frame :: bool
  shape_type :: "int option"
  text_attr :: "ustr option"
  text_frame :: "ustr list option"

type_synonym slide = "shape list"

subsection \<open>get\_text\_from\_shape\<close>

definition get_text_from_shape :: "shape \<Rightarrow> ustr" where
  "get_text_from_shape shape =
     (case text_attr shape of
        Some t \<Rightarrow> t
      | None \<Rightarrow>
          (case text_frame shape of
             Some paragraphs \<Rightarrow> join [10] paragraphs
           | None \<Rightarrow> []))"

subsection \<open>get\_slide\_content\<close>

text \<open>
  The loop over \<open>slide.shapes\<close>, with the two variables \<open>title\<close> and \<open>content\<close> it
  updates. \<open>text.strip()\<close> is true when it is not empty, \<open>not title\<close> when \<open>title\<close> is.
\<close>

fun shapes_loop :: "slide \<Rightarrow> ustr \<Rightarrow> ustr list \<Rightarrow> ustr \<times> ustr list" where
  "shapes_loop [] title content = (title, content)"
| "shapes_loop (shape # shapes) title content =
     (if has_text_frame shape then
        (let text = get_text_from_shape shape in
         if strip text \<noteq> [] then
           (if shape_type shape = Some 1 then shapes_loop shapes text content
            else if title = [] \<and> length content = 0 then shapes_loop shapes text content
            else shapes_loop shapes title (content @ [text]))
         else shapes_loop shapes title content)
      else shapes_loop shapes title content)"

definition get_slide_content :: "slide \<Rightarrow> ustr \<times> ustr list" where
  "get_slide_content slide = shapes_loop slide [] []"

text \<open>
  The shapes the loop does not skip, and the shapes whose kind is the title placeholder's
  (\<open>shape.shape_type == 1\<close>).
\<close>

definition contributes :: "shape \<Rightarrow> bool" where
  "contributes shape = (has_text_frame shape \<and> strip (get_text_from_shape shape) \<noteq> [])"

definition is_title_kind :: "shape \<Rightarrow> bool" where
  "is_title_kind shape = (shape_type shape = Some 1)"

subsection \<open>convert\_pptx\_to\_html: the slides\<close>

text \<open>
  \<open>is_title_slide\<close> of the loop over the slides; \<open>i\<close> counts from 1 and \<open>n\<close> is
  \<open>len(prs.slides)\<close>.
\<close>

definition is_title_slide :: "nat \<Rightarrow> nat \<Rightarrow> ustr \<Rightarrow> bool" where
  "is_title_slide i n title =
     (i = 1 \<or> i = n \<or> contains (ascii ''Thank You'') title
      \<or> contains (ascii ''Questions'') title)"

text \<open>
  \<open>re.sub(r'^[\<bullet>\-\*]\s*', '', line)\<close>, the bullet being the code point 8226: without
  the multi-line flag the anchor matches at the start of the string only, so at most one
  marker goes, with the whitespace after it.
\<close>

definition re_sub_bullet :: "ustr \<Rightarrow> ustr" where
  "re_sub_bullet line =
     (case line of
        [] \<Rightarrow> []
      | c # cs \<Rightarrow> if c \<in> {8226, 45, 42} then dropWhile isspace cs else line)"

text \<open>
  The test \<open>any(line.strip().startswith('\<bullet>') or line.strip().startswith('-')
  for line in lines if line.strip())\<close>.
\<close>

definition has_bullets :: "ustr list \<Rightarrow> bool" where
  "has_bullets lines =
     list_ex (\<lambda>line. prefix [8226] (strip line) \<or> prefix (ascii ''-'') (strip line))
       (filter (\<lambda>line. strip line \<noteq> []) lines)"

text \<open>What one line of a bulleted block appends to \<open>html_parts\<close>.\<close>

definition list_item :: "ustr \<Rightarrow> ustr list" where
  "list_item line =
     (let line = strip line in
      if line \<noteq> [] then [ascii ''<li>'' @ escape_html (re_sub_bullet line) @ ascii ''</li>'']
      else [])"

text \<open>What one content block appends to \<open>html_parts\<close>.\<close>

definition render_item :: "ustr \<Rightarrow> ustr list" where
  "render_item item =
     (if strip item \<noteq> [] then
        (let lines = split_char 10 item in
         if has_bullets lines then
           [ascii ''<ul>''] @ concat (map list_item lines) @ [ascii ''</ul>'']
         else
           (let paragraphs = filter (\<lambda>p. strip p \<noteq> []) (split_char 10 item) in
            map (\<lambda>para. ascii ''<p>'' @ escape_html para @ ascii ''</p>'') paragraphs))
      else [])"

text \<open>What slide \<open>i\<close> of \<open>n\<close> appends to \<open>html_parts\<close>.\<close>

definition render_slide :: "nat \<Rightarrow> nat \<Rightarrow> slide \<Rightarrow> ustr list" where
  "render_slide i n slide =
     (case get_slide_content slide of
        (title, content) \<Rightarrow>
          (let is_title = is_title_slide i n title in
           [ascii ''<div class=\"slide'' @ (if is_title then ascii '' title-slide'' else [])
              @ ascii ''\">'']
           @ [ascii ''<div class=\"slide-number\">Slide '' @ str_nat i @ ascii '' of ''
                @ str_nat n @ ascii ''</div>'']
           @ (if title \<noteq> [] then
                (if is_title then [ascii ''<h1>'' @ escape_html title @ ascii ''</h1>'']
                 else [ascii ''<h2 class=\"slide-title\">'' @ escape_html title
                         @ ascii ''</h2>''])
              else [])
           @ (if content \<noteq> [] then
                [ascii ''<div class=\"slide-content\">''] @ concat (map render_item content)
                @ [ascii ''</div>'']
              else [])
           @ [ascii ''</div>'']))"


text \<open>A part of the page that opens a heading of a slide.\<close>

definition is_heading :: "ustr \<Rightarrow> bool" where
  "is_heading part = (prefix (ascii ''<h1>'') part \<or> prefix (ascii ''<h2'') part)"

subsection \<open>Example shapes\<close>

text \<open>
  A shape with a text frame holding \<open>t\<close>, of kind \<open>kind\<close>, and a picture (no text frame).
\<close>

definition text_shape :: "int option \<Rightarrow> ustr \<Rightarrow> shape" where
  "text_shape kind t =
     \<lparr>has_text_frame = True, shape_type = kind, text_attr = Some t,
      text_frame = Some (split_char 10 t)\<rparr>"

definition picture :: shape where
  "picture = \<lparr>has_text_frame = False, shape_type = Some 13, text_attr = None,
               text_frame = None\<rparr>"


subsection \<open>convert\_pptx\_to\_html: the page\<close>




subsection \<open>convert\_pptx\_to\_html and the script\<close>

text \<open>
  An exception is known by whether it is an instance of \<open>Exception\<close> (the class the guard
  of the script names; \<open>KeyboardInterrupt\<close> and \<open>SystemExit\<close> are not) and by \<open>str(e)\<close>.
  The script acts on the world by printing and by writing files: \<open>console\<close> records what
  was printed, in order, and \<open>files\<close> holds the content of every file that exists.
  \<open>traceback.print_exc()\<close> is recorded as the event \<open>Traceback e\<close>. Printing is taken to
  succeed.
\<close>

record exn =
  is_Exception :: bool
  str_of :: ustr



text \<open>
  What the world decides: whether \<open>Presentation(path)\<close> raises or which slides it loads,
  the formatted time, whether \<open>open(path, 'w')\<close> raises, and whether \<open>f.write(data)\<close>
  (with the flush on leaving the \<open>with\<close> block) raises and after how many
  code points of \<open>data\<close> have reached the file.
\<close>

record env =
  Presentation :: "ustr \<Rightarrow> exn + slide list"
  strftime_now :: ustr
  open_raises :: "ustr \<Rightarrow> exn option"
  write_raises :: "ustr \<Rightarrow> ustr \<Rightarrow> (exn \<times> nat) option"







subsection \<open>Example runs\<close>






section \<open>create\_ppt.py\<close>

subsection \<open>clean\_text\<close>

text \<open>
  \<open>re.sub(r'<[^>]+>', '', text)\<close>: at a \<open><\<close>, the class \<open>[^>]+\<close> takes the longest run of
  code points other than \<open>>\<close> (a newline or another \<open><\<close> too); the match succeeds when the
  run is not empty and a \<open>>\<close> follows it, and the scan resumes after that \<open>>\<close>.
\<close>

function remove_tags :: "ustr \<Rightarrow> ustr" where
  "remove_tags [] = []"
| "remove_tags (c # cs) =
     (if c = 60 \<and> takeWhile (\<lambda>x. x \<noteq> 62) cs \<noteq> [] \<and> dropWhile (\<lambda>x. x \<noteq> 62) cs \<noteq> []
      then remove_tags (tl (dropWhile (\<lambda>x. x \<noteq> 62) cs))
      else c # remove_tags cs)"
  by pat_completeness auto
termination
proof (relation "measure length")
  show "wf (measure length)" by simp
next
  fix c :: nat and cs :: ustr
  have "length (tl (dropWhile (\<lambda>x. x \<noteq> 62) cs)) \<le> length cs"
    using length_dropWhile_le [of "\<lambda>x. x \<noteq> 62" cs] by simp
  then show "(tl (dropWhile (\<lambda>x. x \<noteq> 62) cs), c # cs) \<in> measure length" by simp
next
  fix c :: nat and cs :: ustr
  show "(cs, c # cs) \<in> measure length" by simp
qed

text \<open>\<open>text.split()\<close>: the maximal runs of code points that are not whitespace.\<close>

fun split_from :: "ustr \<Rightarrow> ustr \<Rightarrow> ustr list" where
  "split_from word [] = (if word = [] then [] else [word])"
| "split_from word (c # cs) =
     (if isspace c then (if word = [] then split_from [] cs else word # split_from [] cs)
      else split_from (word @ [c]) cs)"

definition split_ws :: "ustr \<Rightarrow> ustr list" where
  "split_ws s = split_from [] s"

text \<open>
  The thirteen emoji the source removes are written by their code points; four of them
  are followed by the variation selector 65039.
\<close>

definition clean_text :: "ustr \<Rightarrow> ustr" where
  "clean_text text =
     (let text = remove_tags text;
          text = replace [127973] [] text;
          text = replace [128218] [] text;
          text = replace [127959, 65039] [] text;
          text = replace [128230] [] text;
          text = replace [128736, 65039] [] text;
          text = replace [128269] [] text;
          text = replace [128190] [] text;
          text = replace [9881, 65039] [] text;
          text = replace [128295] [] text;
          text = replace [127912] [] text;
          text = replace [128241] [] text;
          text = replace [128188] [] text;
          text = replace [128452, 65039] [] text;
          text = join (ascii '' '') (split_ws text)
      in strip text)"

subsection \<open>The deck\<close>

text \<open>
  What the script puts on a slide: the index of its layout in \<open>prs.slide_layouts\<close>, the
  text of its title shape, and the contents of its other placeholders in the order of
  their indices: a text assigned as a whole, or the paragraphs added one by one after
  \<open>text_frame.clear()\<close>. Slide sizes, fonts, colours and spacing are not modelled. A
  presentation is the sequence of its slides.
\<close>

datatype body = Text ustr | Paragraphs "ustr list"

record deck_slide =
  layout :: nat
  title_text :: ustr
  bodies :: "body list"

type_synonym presentation = "deck_slide list"

definition add_title_slide :: "presentation \<Rightarrow> ustr \<Rightarrow> ustr \<Rightarrow> presentation" where
  "add_title_slide prs title subtitle =
     prs @ [\<lparr>layout = 0, title_text = title, bodies = [Text subtitle]\<rparr>]"

text \<open>
  The loop over the items of a placeholder: an item that is blank is skipped, every other
  one adds a paragraph holding \<open>clean_text\<close> of it. The empty paragraph that
  \<open>text_frame.clear()\<close> leaves in front of them is not counted.
\<close>

definition add_paragraphs :: "ustr list \<Rightarrow> ustr list" where
  "add_paragraphs items = map clean_text (filter (\<lambda>item. strip item \<noteq> []) items)"

definition add_content_slide :: "presentation \<Rightarrow> ustr \<Rightarrow> ustr list \<Rightarrow> presentation" where
  "add_content_slide prs title content_items =
     prs @ [\<lparr>layout = 1, title_text = clean_text title,
             bodies = [Paragraphs (add_paragraphs content_items)]\<rparr>]"

definition add_two_column_slide ::
  "presentation \<Rightarrow> ustr \<Rightarrow> ustr list \<Rightarrow> ustr list \<Rightarrow> presentation" where
  "add_two_column_slide prs title left_items right_items =
     prs @ [\<lparr>layout = 3, title_text = clean_text title,
             bodies = [Paragraphs (add_paragraphs left_items),
                       Paragraphs (add_paragraphs right_items)]\<rparr>]"

subsection \<open>create\_presentation\<close>

text \<open>The lists of the source, under its names.\<close>

definition tech_stack :: "ustr list" where
  "tech_stack =
    [ascii ''Runtime & Language: Node.js, TypeScript, ES2022'',
     ascii ''Framework & Core: NitroStack, @nitrostack/core, @nitrostack/cli'',
     ascii ''Database: MongoDB (v7.1.0), Connection Pooling'',
     ascii ''Validation & Schema: Zod (v3.22.4), TypeScript Interfaces'',
     ascii ''UI Framework: Next.js, React, TypeScript'',
     ascii ''Utilities: dotenv, In-memory Cache'']"

definition arch_overview :: "ustr list" where
  "arch_overview =
    [ascii ''5-Layer Architecture'',
     ascii ''Presentation Layer: Next.js Widgets (React-based UI)'',
     ascii ''Application Layer: NitroStack MCP Server'',
     ascii ''Business Logic Layer: Services (Query, Scoring, Recommendation)'',
     ascii ''Data Access Layer: MongoDBService with Connection Pooling'',
     ascii ''Data Layer: MongoDB Database with Collections & Indexes'']"

definition arch_layers :: "ustr list" where
  "arch_layers =
    [ascii ''Presentation Layer:'',
     [8226] @ ascii '' Next.js Widgets - React-based UI components'',
     [8226]
       @ ascii '' Widgets: insurance-list, insurance-suggestion, insurance-booking, booking-status-list'',
     [8226] @ ascii '' Hot module replacement for development'',
     [],
     ascii ''Application Layer:'',
     [8226] @ ascii '' NitroStack MCP Server - Model Context Protocol server'',
     [8226] @ ascii '' Tools - Business logic endpoints'',
     [8226] @ ascii '' Resources - Data exposure endpoints'',
     [8226] @ ascii '' Prompts - Conversation templates'']"

definition arch_business :: "ustr list" where
  "arch_business =
    [ascii ''Business Logic Layer:'',
     [8226] @ ascii '' InsuranceTools - Main tool controller'',
     [8226] @ ascii '' InsuranceQueryBuilderService - MongoDB query construction'',
     [8226] @ ascii '' InsuranceScoringService - Plan matching algorithm'',
     [8226] @ ascii '' InsuranceRecommendationService - Recommendation generation'',
     [8226] @ ascii '' CacheService - In-memory caching'',
     [8226] @ ascii '' MetricsService - Performance monitoring'',
     [],
     ascii ''Data Access Layer:'',
     [8226] @ ascii '' MongoDBService - Database connection management'',
     [8226] @ ascii '' Connection Pooling - Efficient connection reuse (min: 2, max: 10)'',
     [8226] @ ascii '' Index Management - Automatic index creation'',
     [8226] @ ascii '' Retry Logic - Automatic reconnection'']"

definition collections_intro :: "ustr list" where
  "collections_intro =
    [ascii ''Three Main Collections:'',
     ascii ''1. Insurance Collection (Primary)'',
     ascii ''2. Users Collection (Secondary)'',
     ascii ''3. Bookings Collection (Secondary)'']"

definition insurance_collection :: "ustr list" where
  "insurance_collection =
    [ascii ''Insurance Collection:'',
     [8226] @ ascii '' Stores all insurance plan information'',
     [8226] @ ascii '' Key Fields: name, type, premium, coverage, policyNumber'',
     [8226] @ ascii '' Age Range: minAge, maxAge'',
     [8226] @ ascii '' Family: familyCoverage, maxFamilyMembers'',
     [8226] @ ascii '' Conditions: coversPreExisting, coveredConditions'',
     [8226] @ ascii '' Provider & Description'',
     [],
     ascii ''Indexes:'',
     [8226] @ ascii '' Text index on name for search'',
     [8226] @ ascii '' Indexes on premium, age ranges, family coverage'',
     [8226] @ ascii '' Unique sparse index on policyNumber'',
     [8226] @ ascii '' Compound indexes for common queries'']"

definition users_collection :: "ustr list" where
  "users_collection =
    [ascii ''Users Collection:'',
     [8226] @ ascii '' Stores user account information'',
     [8226] @ ascii '' Key Fields: email (unique), name, phone, age, salary'',
     [8226] @ ascii '' Additional: designation, address, familyMembers'',
     [8226] @ ascii '' Timestamps: createdAt, updatedAt'',
     [],
     ascii ''Indexes:'',
     [8226] @ ascii '' Unique index on email (primary key)'',
     [8226] @ ascii '' Text index on name for search'',
     [8226] @ ascii '' Indexes on age, salary, designation'',
     [8226] @ ascii '' Sparse unique index on phone'',
     [8226] @ ascii '' Index on createdAt for sorting'']"

definition bookings_collection :: "ustr list" where
  "bookings_collection =
    [ascii ''Bookings Collection:'',
     [8226] @ ascii '' Stores insurance booking records'',
     [8226] @ ascii '' References: userId, insurancePlanId, policyNumber'',
     [8226] @ ascii '' Status: status (pending/confirmed/cancelled/expired/active)'',
     [8226] @ ascii '' Financial: premium, coverageAmount'',
     [8226] @ ascii '' Dates: startDate, endDate'',
     [8226] @ ascii '' Payment: paymentStatus, paymentMethod, transactionId'',
     [8226] @ ascii '' Additional: notes, createdAt, updatedAt'',
     [],
     ascii ''Indexes:'',
     [8226] @ ascii '' Index on userId (most common query)'',
     [8226] @ ascii '' Indexes on insurancePlanId, status, paymentStatus'',
     [8226] @ ascii '' Compound indexes for user bookings by status'',
     [8226] @ ascii '' Date range indexes for queries'']"

definition tools_intro :: "ustr list" where
  "tools_intro =
    [ascii ''Four Main Tools:'',
     ascii ''1. list_insurance - Query Tool'',
     ascii ''2. suggest_insurance_plan - AI Tool'',
     ascii ''3. book_insurance_with_user - Transaction Tool'',
     ascii ''4. list_booking_status_by_email - Query Tool'']"

definition list_insurance :: "ustr list" where
  "list_insurance =
    [ascii ''list_insurance Tool:'',
     ascii ''Purpose: List and filter insurance plans'',
     ascii ''Widget: insurance-list'',
     [],
     ascii ''Input Parameters:'',
     [8226] @ ascii '' salary (Required) - Annual salary for affordability'',
     [8226] @ ascii '' familyMembers (Optional) - Number of family members'',
     [8226] @ ascii '' age (Optional, 0-120) - User age for age range matching'',
     [8226] @ ascii '' limit (Optional, default: 100) - Max records'',
     [8226] @ ascii '' skip (Optional, default: 0) - Pagination'',
     [8226] @ ascii '' filter (Optional) - Additional MongoDB filter'',
     [],
     ascii ''Filtering Logic:'',
     [8226] @ ascii '' Premium '' @ [8804] @ ascii '' 10% of annual salary'',
     [8226] @ ascii '' Family coverage matching'',
     [8226] @ ascii '' Age range validation'',
     [8226] @ ascii '' Custom MongoDB operators supported'']"

definition suggest_insurance :: "ustr list" where
  "suggest_insurance =
    [ascii ''suggest_insurance_plan Tool:'',
     ascii ''Purpose: AI-powered insurance plan suggestions with match scoring'',
     ascii ''Widget: insurance-suggestion'',
     [],
     ascii ''Input Parameters:'',
     [8226] @ ascii '' age (Required, 0-120) - User age'',
     [8226] @ ascii '' salary (Required) - Annual salary'',
     [8226] @ ascii '' familyMembers (Required) - Number of family members'',
     [8226] @ ascii '' deficiencies (Optional) - Health deficiencies/pre-existing conditions'',
     [8226] @ ascii '' insuranceType (Optional) - Filter by type'',
     [],
     ascii ''Scoring Algorithm (0-100 points):'',
     [8226] @ ascii '' Age Match: 30 points'',
     [8226] @ ascii '' Premium Affordability: 25 points'',
     [8226] @ ascii '' Family Coverage: 20 points'',
     [8226] @ ascii '' Pre-existing Conditions: 25 points'',
     [8226] @ ascii '' Specific Conditions: 15 points'',
     [8226] @ ascii '' Type Match: 10 points'',
     [],
     ascii ''Returns: Top 5 plans sorted by match score'']"

definition book_insurance :: "ustr list" where
  "book_insurance =
    [ascii ''book_insurance_with_user Tool:'',
     ascii ''Purpose: Create booking record and manage user account'',
     ascii ''Widget: insurance-booking'',
     [],
     ascii ''Input Parameters:'',
     [8226] @ ascii '' policyNumber (Required) - Insurance policy number'',
     [8226] @ ascii '' email (Required) - User email (validated)'',
     [8226] @ ascii '' name (Required) - User full name'',
     [8226] @ ascii '' phoneNumber (Required) - User phone number'',
     [8226] @ ascii '' paymentMethod (Optional) - Payment method'',
     [8226] @ ascii '' startDate (Optional) - ISO 8601 format'',
     [8226] @ ascii '' years (Optional, 1-50) - Coverage duration'',
     [8226] @ ascii '' transactionId (Optional) - Payment transaction ID'',
     [8226] @ ascii '' notes (Optional) - Additional notes'',
     [],
     ascii ''Business Logic:'',
     [8226] @ ascii '' Validates insurance plan exists'',
     [8226] @ ascii '' Creates/updates user account'',
     [8226] @ ascii '' Creates booking with status='' @ [39] @ ascii ''pending'' @ [39],
     [8226] @ ascii '' Sets payment status based on transactionId'',
     [8226] @ ascii '' Calculates endDate from startDate + years'']"

definition list_booking :: "ustr list" where
  "list_booking =
    [ascii ''list_booking_status_by_email Tool:'',
     ascii ''Purpose: Retrieve all bookings for a user by email'',
     ascii ''Widget: booking-status-list'',
     [],
     ascii ''Input Parameters:'',
     [8226] @ ascii '' email (Required) - User email address'',
     [],
     ascii ''Business Logic:'',
     [8226] @ ascii '' Validates email format'',
     [8226] @ ascii '' Finds user by email (returns error if not found)'',
     [8226] @ ascii '' Retrieves all bookings for the user'',
     [8226] @ ascii '' Sorts by createdAt descending (most recent first)'',
     [],
     ascii ''Response:'',
     [8226] @ ascii '' success - Boolean'',
     [8226] @ ascii '' user - User document'',
     [8226] @ ascii '' bookings - Array of all booking documents'',
     [8226] @ ascii '' count - Total number of bookings'']"

definition queries :: "ustr list" where
  "queries =
    [ascii ''MongoDB Query Optimization:'',
     [8226] @ ascii '' InsuranceQueryBuilderService constructs optimized queries'',
     [8226] @ ascii '' All queries leverage database indexes'',
     [8226] @ ascii '' Filters applied at database level'',
     [8226] @ ascii '' Pagination with skip/limit'',
     [8226] @ ascii '' Projection for necessary fields only'',
     [8226] @ ascii '' Input sanitization prevents injection attacks'',
     [],
     ascii ''Query Types:'',
     ascii ''1. List Insurance Query - Filters by salary, age, family'',
     ascii ''2. Suggestion Query - Optimized for scoring algorithm'',
     ascii ''3. Booking Queries - User lookup, plan lookup, status filtering'']"

definition cache_intro :: "ustr list" where
  "cache_intro =
    [ascii ''Cache Implementation:'',
     [8226] @ ascii '' Type: In-memory Map-based cache'',
     [8226] @ ascii '' Pattern: Singleton service'',
     [8226] @ ascii '' Storage: JavaScript Map<string, CacheEntry>'',
     [8226] @ ascii '' TTL: Configurable per entry, default 5 minutes'',
     [],
     ascii ''Cache Operations:'',
     [8226] @ ascii '' get<T>(key) - Retrieve cached value'',
     [8226] @ ascii '' set<T>(key, value, ttl?) - Store value'',
     [8226] @ ascii '' getOrCompute<T>(key, computeFn, ttl?) - Cache or compute'',
     [8226] @ ascii '' delete(key) - Remove entry'',
     [8226] @ ascii '' clear() - Remove all entries'']"

definition cache_details :: "ustr list" where
  "cache_details =
    [ascii ''Cache TTL by Operation:'',
     [8226] @ ascii '' list_insurance: 5 minutes'',
     [8226] @ ascii '' suggest_insurance_plan: 5 minutes'',
     [8226] @ ascii '' search_insurance_names: 2 minutes'',
     [],
     ascii ''Cache Key Generation:'',
     [8226] @ ascii '' Deterministic from input parameters'',
     [8226] @ ascii '' Parameters sorted alphabetically'',
     [8226] @ ascii '' Values JSON stringified'',
     [8226] @ ascii '' Format: '' @ [39] @ ascii ''prefix:param1:value1|param2:value2|...''
       @ [39],
     [],
     ascii ''Cache Cleanup:'',
     [8226] @ ascii '' Automatic cleanup every 60 seconds'',
     [8226] @ ascii '' Lazy expiration on get() operations'',
     [8226] @ ascii '' Removes expired entries'']"

definition cache_benefits :: "ustr list" where
  "cache_benefits =
    [ascii ''Cache Benefits:'',
     [8226] @ ascii '' Performance: Reduces database queries by 60-80%'',
     [8226] @ ascii '' Latency: Cache hits return in <1ms vs 10-50ms for DB queries'',
     [8226] @ ascii '' Database Load: Significantly reduces load on MongoDB'',
     [8226] @ ascii '' Cost: Lower database operation costs'',
     [],
     ascii ''Cache Flow:'',
     ascii ''1. Request received with parameters'',
     ascii ''2. Generate deterministic cache key'',
     ascii ''3. Check cache for existing entry'',
     ascii ''4. If cache hit and not expired, return cached data'',
     ascii ''5. If cache miss, execute database query'',
     ascii ''6. Store result in cache with TTL'',
     ascii ''7. Return result to caller'']"

definition system_init :: "ustr list" where
  "system_init =
    [ascii ''System Initialization:'',
     ascii ''1. Application Start - NitroStack CLI starts MCP server'',
     ascii ''2. Module Loading - AppModule loads InsuranceModule'',
     ascii ''3. MongoDB Initialization - Connection established'',
     ascii ''4. Connection Pooling - Pool created (min: 2, max: 10)'',
     ascii ''5. Index Creation - Automatic index creation for collections'',
     ascii ''6. Service Initialization - CacheService, MetricsService as singletons'',
     ascii ''7. Health Check Start - Monitoring every 30 seconds'',
     ascii ''8. Ready State - Server ready to accept requests'']"

definition request_flow :: "ustr list" where
  "request_flow =
    [ascii ''Request Processing Flow:'',
     ascii ''1. Request Received - MCP server receives tool invocation'',
     ascii ''2. Input Validation - Zod schema validates parameters'',
     ascii ''3. Input Sanitization - InputSanitizer sanitizes inputs'',
     ascii ''4. Cache Check - CacheService checks for cached result'',
     ascii ''5. Query Building - InsuranceQueryBuilderService builds query'',
     ascii ''6. Database Query - MongoDBService executes using indexes'',
     ascii ''7. Data Processing - Results processed (scoring, formatting)'',
     ascii ''8. Cache Storage - Result stored in cache with TTL'',
     ascii ''9. Metrics Recording - MetricsService records operation'',
     ascii ''10. Response Return - Formatted response returned'']"

definition error_handling :: "ustr list" where
  "error_handling =
    [ascii ''Error Handling:'',
     [8226] @ ascii '' Custom Error Classes with codes and context'',
     [8226] @ ascii '' Error Types:'',
     ascii ''  - DatabaseConnectionError - Connection failures'',
     ascii ''  - DatabaseQueryError - Query execution failures'',
     ascii ''  - InvalidInputError - Input validation failures'',
     ascii ''  - ConfigurationError - Configuration issues'',
     [],
     ascii ''Retry Logic:'',
     [8226] @ ascii '' Automatic reconnection with exponential backoff'',
     [8226] @ ascii '' Maximum 5 retry attempts'',
     [8226] @ ascii '' All errors tracked in MetricsService'']"

definition performance :: "ustr list" where
  "performance =
    [ascii ''Performance Optimizations:'',
     [8226] @ ascii '' Database Indexes: 20+ indexes across collections'',
     [8226] @ ascii '' Connection Pooling: Reuses connections (2-10)'',
     [8226] @ ascii '' Caching: In-memory cache reduces database load'',
     [8226] @ ascii '' Query Optimization: Filters at database level'',
     [8226] @ ascii '' Pagination: Efficient data retrieval with skip/limit'',
     [8226] @ ascii '' Lazy Loading: Collections initialized when needed'',
     [],
     ascii ''Monitoring & Metrics:'',
     [8226] @ ascii '' MetricsService tracks: operation count, avg/min/max times'',
     [8226] @ ascii '' Error count and success rate percentage'',
     [8226] @ ascii '' Health Checks: MongoDB connection status, ping every 30s'']"

definition security :: "ustr list" where
  "security =
    [ascii ''Security Features:'',
     [8226] @ ascii '' Input Sanitization:'',
     ascii ''  - Regex injection prevention'',
     ascii ''  - String sanitization'',
     ascii ''  - Number validation'',
     ascii ''  - Filter object sanitization'',
     [],
     [8226] @ ascii '' Type Validation:'',
     ascii ''  - Zod schemas validate all inputs'',
     [],
     [8226] @ ascii '' MongoDB Injection Prevention:'',
     ascii ''  - Filter objects sanitized before query'',
     [],
     [8226] @ ascii '' Email Validation:'',
     ascii ''  - Regex validation for email format'']"

definition core_services :: "ustr list" where
  "core_services =
    [ascii ''Core Services:'',
     [8226] @ ascii '' MongoDBService - Database connection, pooling, indexes (Singleton)'',
     [8226] @ ascii '' CacheService - In-memory caching with TTL (Singleton)'',
     [8226] @ ascii '' MetricsService - Operation tracking, monitoring (Singleton)'',
     [8226] @ ascii '' InsuranceQueryBuilderService - MongoDB query construction'',
     [8226] @ ascii '' InsuranceScoringService - Match score calculation'',
     [8226] @ ascii '' InsuranceRecommendationService - Recommendation generation'']"

definition configuration :: "ustr list" where
  "configuration =
    [ascii ''Configuration:'',
     [8226] @ ascii '' InsuranceConfig: Environment variable management with Zod'',
     [],
     ascii ''Environment Variables:'',
     [8226] @ ascii '' MONGODB_URI - MongoDB connection string'',
     [8226] @ ascii '' MONGODB_DATABASE_NAME - Database name (default: '' @ [39]
       @ ascii ''Insurance'' @ [39] @ ascii '')'',
     [8226] @ ascii '' MONGODB_COLLECTION_NAME - Collection name (default: '' @ [39]
       @ ascii ''Insurance'' @ [39] @ ascii '')'',
     [8226] @ ascii '' MONGODB_MAX_POOL_SIZE - Max connections (default: 10)'',
     [8226] @ ascii '' MONGODB_MIN_POOL_SIZE - Min connections (default: 2)'',
     [8226] @ ascii '' MONGODB_CONNECT_TIMEOUT_MS - Connection timeout (default: 30000)'',
     [8226]
       @ ascii '' MONGODB_SERVER_SELECTION_TIMEOUT_MS - Server selection timeout (default: 5000)'']"

definition utilities :: "ustr list" where
  "utilities =
    [ascii ''Utilities:'',
     [8226] @ ascii '' InputSanitizer - Sanitizes strings, numbers, arrays, filter objects'',
     [8226] @ ascii '' ObjectIdUtil - Converts MongoDB ObjectIds to strings for JSON'']"

definition widgets :: "ustr list" where
  "widgets =
    [ascii ''Widgets (UI Components):'',
     ascii ''Next.js-based React widgets for displaying tool results:'',
     [],
     [8226] @ ascii '' insurance-list - Displays list of insurance plans'',
     [8226] @ ascii '' insurance-suggestion - Shows suggested plans with scores'',
     [8226] @ ascii '' insurance-booking - Booking confirmation interface'',
     [8226] @ ascii '' booking-status-list - User booking history with status cards'',
     [8226] @ ascii '' calculator-result - Calculator tool result display'',
     [8226] @ ascii '' insurance-search-dropdown - Search dropdown component'',
     [],
     ascii ''Widget Development:'',
     [8226] @ ascii '' Hot module replacement enabled for development'']"

definition summary :: "ustr list" where
  "summary =
    [ascii ''Key Highlights:'',
     [8226] @ ascii '' Modern Tech Stack: Node.js, TypeScript, MongoDB, Next.js'',
     [8226] @ ascii '' 5-Layer Architecture with clear separation of concerns'',
     [8226] @ ascii '' 3 MongoDB Collections with optimized indexes'',
     [8226] @ ascii '' 4 Main Tools for insurance management'',
     [8226] @ ascii '' Intelligent Caching System (60-80% query reduction)'',
     [8226] @ ascii '' Comprehensive Error Handling & Retry Logic'',
     [8226] @ ascii '' Performance Optimizations (20+ indexes, connection pooling)'',
     [8226] @ ascii '' Security Features (Input sanitization, injection prevention)'',
     [8226] @ ascii '' Monitoring & Metrics for operational insights'']"


text \<open>
  \<open>create_presentation\<close>; \<open>today\<close> is \<open>datetime.now().strftime('%B %d, %Y')\<close>.
\<close>

definition create_presentation :: "ustr \<Rightarrow> presentation" where
  "create_presentation today =
     (let prs = [];
          prs = add_title_slide prs (ascii ''InsureMate Project Analysis'')
                  (ascii ''Comprehensive Insurance Management System'' @ [10]
                   @ ascii ''Technical Documentation'' @ [10, 10]
                   @ ascii ''Generated: '' @ today @ [10]
                   @ ascii ''Author: Geetha Charu Mathi'');
          prs = add_content_slide prs (ascii ''Technology Stack'') tech_stack;
          prs = add_content_slide prs (ascii ''System Architecture'') arch_overview;
          prs = add_content_slide prs (ascii ''Architecture - Presentation & Application Layers'')
                  arch_layers;
          prs = add_content_slide prs (ascii ''Architecture - Business Logic & Data Access'')
                  arch_business;
          prs = add_content_slide prs (ascii ''MongoDB Collections'') collections_intro;
          prs = add_content_slide prs (ascii ''Insurance Collection'') insurance_collection;
          prs = add_content_slide prs (ascii ''Users Collection'') users_collection;
          prs = add_content_slide prs (ascii ''Bookings Collection'') bookings_collection;
          prs = add_content_slide prs (ascii ''Tools & Usage'') tools_intro;
          prs = add_content_slide prs (ascii ''Tool: list_insurance'') list_insurance;
          prs = add_content_slide prs (ascii ''Tool: suggest_insurance_plan'')
                  suggest_insurance;
          prs = add_content_slide prs (ascii ''Tool: book_insurance_with_user'') book_insurance;
          prs = add_content_slide prs (ascii ''Tool: list_booking_status_by_email'')
                  list_booking;
          prs = add_content_slide prs (ascii ''MongoDB Queries'') queries;
          prs = add_content_slide prs (ascii ''Cache Handling'') cache_intro;
          prs = add_content_slide prs (ascii ''Cache Details'') cache_details;
          prs = add_content_slide prs (ascii ''Cache Benefits & Flow'') cache_benefits;
          prs = add_content_slide prs (ascii ''System Initialization'') system_init;
          prs = add_content_slide prs (ascii ''Request Processing Flow'') request_flow;
          prs = add_content_slide prs (ascii ''Error Handling'') error_handling;
          prs = add_content_slide prs (ascii ''Performance & Monitoring'') performance;
          prs = add_content_slide prs (ascii ''Security Features'') security;
          prs = add_content_slide prs (ascii ''Core Services'') core_services;
          prs = add_content_slide prs (ascii ''Configuration'') configuration;
          prs = add_content_slide prs (ascii ''Utilities'') utilities;
          prs = add_content_slide prs (ascii ''Widgets (UI Components)'') widgets;
          prs = add_content_slide prs (ascii ''Summary'') summary;
          prs = add_title_slide prs (ascii ''Thank You'') (ascii ''Questions & Discussion'')
      in prs)"

section \<open>Properties of escape\_html\<close>

lemma replace_single:
  "replace [c] new s = concat (map (\<lambda>x. if x = c then new else [x]) s)"
  by (induction s) auto







text \<open>
  C4: escaping \<open><b>&"'</b>\<close> yields \<open>&lt;b&gt;&amp;&quot;&#39;&lt;/b&gt;\<close>, and the result has
  no special character left that needs escaping: no raw \<open><\<close>, \<open>>\<close>, \<open>"\<close>, \<open>'\<close>, and every
  ampersand in it starts an entity.
\<close>

theorem escape_html_example:
  "escape_html (ascii ''<b>&\"'</b>'') = ascii ''&lt;b&gt;&amp;&quot;&#39;&lt;/b&gt;''
   \<and> fully_escaped (escape_html (ascii ''<b>&\"'</b>''))
   \<and> set (escape_html (ascii ''<b>&\"'</b>'')) \<inter> {60, 62, 34, 39} = {}"
  by (simp add: escape_html_def ascii_def replace_single starts_entity_def)


section \<open>Properties of the slide classifier\<close>



lemma shapes_loop_skip:
  "\<not> contributes s \<Longrightarrow> shapes_loop (s # shapes) t c = shapes_loop shapes t c"
  by (simp add: contributes_def Let_def)

lemma shapes_loop_append:
  "shapes_loop (xs @ ys) t c =
     shapes_loop ys (fst (shapes_loop xs t c)) (snd (shapes_loop xs t c))"
  by (induction xs arbitrary: t c) (simp_all add: Let_def)

lemma shapes_loop_filter:
  "shapes_loop (filter contributes shapes) t c = shapes_loop shapes t c"
  by (induction shapes arbitrary: t c) (simp_all add: Let_def contributes_def)

lemma shapes_loop_content_nonblank:
  "list_all (\<lambda>b. strip b \<noteq> []) c
   \<Longrightarrow> list_all (\<lambda>b. strip b \<noteq> []) (snd (shapes_loop shapes t c))"
  by (induction shapes arbitrary: t c) (simp_all add: Let_def)

lemma shapes_loop_title_origin:
  "fst (shapes_loop shapes t c) = t
   \<or> (\<exists>s \<in> set shapes. fst (shapes_loop shapes t c) = get_text_from_shape s)"
proof (induction shapes arbitrary: t c)
  case Nil
  then show ?case by simp
next
  case (Cons a shapes)
  show ?case
    using Cons.IH [of "get_text_from_shape a" c] Cons.IH [of t c]
      Cons.IH [of t "c @ [get_text_from_shape a]"]
    by (auto simp add: Let_def)
qed


lemma text_shape_text: "get_text_from_shape (text_shape kind t) = t"
  by (simp add: get_text_from_shape_def text_shape_def)

lemma text_shape_contributes: "contributes (text_shape kind t) = (strip t \<noteq> [])"
  by (simp add: contributes_def text_shape_def get_text_from_shape_def)

lemma text_shape_kind: "is_title_kind (text_shape kind t) = (kind = Some 1)"
  by (simp add: is_title_kind_def text_shape_def)

lemma picture_skipped: "\<not> contributes picture"
  by (simp add: contributes_def picture_def)

lemma strip_Nil: "strip [] = []"
  by (simp add: strip_def)

lemma strip_A: "strip (ascii ''A'') = ascii ''A''"
  by (simp add: strip_def isspace_def ascii_def)

lemma strip_B: "strip (ascii ''B'') = ascii ''B''"
  by (simp add: strip_def isspace_def ascii_def)

lemma ascii_A_B: "ascii ''A'' \<noteq> [] \<and> ascii ''B'' \<noteq> [] \<and> ascii ''B'' \<noteq> ascii ''A''"
  by (simp add: ascii_def)

lemmas example_shapes =
  text_shape_text text_shape_contributes text_shape_kind picture_skipped strip_A strip_B
  ascii_A_B




text \<open>
  C5: a slide with exactly one shape that is not skipped (one non-blank text shape; the
  other shapes have no text frame or a blank text) has that shape's text as its title and
  an empty content list.
\<close>

theorem single_text_shape_is_title:
  assumes "filter contributes slide = [s]"
  shows "get_slide_content slide = (get_text_from_shape s, [])"
proof -
  have "s \<in> set (filter contributes slide)" using assms by simp
  then have c: "contributes s" by simp
  have "get_slide_content slide = shapes_loop [s] [] []"
    unfolding get_slide_content_def using shapes_loop_filter [of slide "[]" "[]"] assms
    by simp
  also have "\<dots> = (get_text_from_shape s, [])"
    using c by (simp add: contributes_def Let_def)
  finally show ?thesis .
qed

theorem single_text_shape_is_title_witness:
  "filter contributes [picture, text_shape (Some 17) (ascii ''A''), text_shape (Some 1) []]
     = [text_shape (Some 17) (ascii ''A'')]
   \<and> get_slide_content
       [picture, text_shape (Some 17) (ascii ''A''), text_shape (Some 1) []]
     = (ascii ''A'', [])"
proof -
  have f: "filter contributes
             [picture, text_shape (Some 17) (ascii ''A''), text_shape (Some 1) []]
           = [text_shape (Some 17) (ascii ''A'')]"
    by (simp add: example_shapes strip_Nil)
  from single_text_shape_is_title [OF f] f show ?thesis
    by (simp add: example_shapes)
qed

text \<open>
  C7: the text of a shape is its attribute \<open>text\<close> when it has one, and otherwise the
  paragraph texts of its text frame joined with newlines; a shape whose text is blank
  after trimming changes neither the title nor the content of its slide.
\<close>

theorem shape_text_extraction:
  "(text_attr s = Some t \<longrightarrow> get_text_from_shape s = t)
   \<and> (text_attr s = None \<and> text_frame s = Some ps \<longrightarrow> get_text_from_shape s = join [10] ps)
   \<and> (strip (get_text_from_shape s) = []
        \<longrightarrow> get_slide_content (xs @ s # ys) = get_slide_content (xs @ ys))"
proof -
  have "get_slide_content (xs @ s # ys) = get_slide_content (xs @ ys)"
    if "strip (get_text_from_shape s) = []"
  proof -
    from that have "\<not> contributes s" by (simp add: contributes_def)
    then show ?thesis
      by (simp add: get_slide_content_def shapes_loop_append shapes_loop_skip
          del: shapes_loop.simps)
  qed
  then show ?thesis by (simp add: get_text_from_shape_def)
qed

theorem shape_text_extraction_witness:
  "get_text_from_shape
     \<lparr>has_text_frame = True, shape_type = Some 17, text_attr = Some (ascii ''A''),
      text_frame = Some [ascii ''B'']\<rparr> = ascii ''A''
   \<and> get_text_from_shape
       \<lparr>has_text_frame = True, shape_type = Some 17, text_attr = None,
        text_frame = Some [ascii ''A'', ascii ''B'']\<rparr> = ascii ''A'' @ [10] @ ascii ''B''
   \<and> get_slide_content
       ([text_shape (Some 1) (ascii ''A'')] @ text_shape (Some 17) [32, 10]
          # [text_shape (Some 17) (ascii ''B'')])
     = get_slide_content
         ([text_shape (Some 1) (ascii ''A'')] @ [text_shape (Some 17) (ascii ''B'')])"
proof -
  have blank: "strip (get_text_from_shape (text_shape (Some 17) [32, 10])) = []"
    by (simp add: text_shape_text strip_def isspace_def)
  have c1: "get_text_from_shape
     \<lparr>has_text_frame = True, shape_type = Some 17, text_attr = Some (ascii ''A''),
      text_frame = Some [ascii ''B'']\<rparr> = ascii ''A''"
    using shape_text_extraction [of
      "\<lparr>has_text_frame = True, shape_type = Some 17, text_attr = Some (ascii ''A''),
        text_frame = Some [ascii ''B'']\<rparr>" "ascii ''A''"]
    by simp
  have c2: "get_text_from_shape
       \<lparr>has_text_frame = True, shape_type = Some 17, text_attr = None,
        text_frame = Some [ascii ''A'', ascii ''B'']\<rparr> = ascii ''A'' @ [10] @ ascii ''B''"
    using shape_text_extraction [of
      "\<lparr>has_text_frame = True, shape_type = Some 17, text_attr = None,
        text_frame = Some [ascii ''A'', ascii ''B'']\<rparr>" _ "[ascii ''A'', ascii ''B'']"]
    by simp
  have c3: "get_slide_content
       ([text_shape (Some 1) (ascii ''A'')] @ text_shape (Some 17) [32, 10]
          # [text_shape (Some 17) (ascii ''B'')])
     = get_slide_content
         ([text_shape (Some 1) (ascii ''A'')] @ [text_shape (Some 17) (ascii ''B'')])"
    using shape_text_extraction [of "text_shape (Some 17) [32, 10]" _ _
      "[text_shape (Some 1) (ascii ''A'')]" "[text_shape (Some 17) (ascii ''B'')]"] blank
    by blast
  from c1 c2 c3 show ?thesis by blast
qed

text \<open>
  C8: for every slide, the title returned is one string, empty or the text of one of the
  slide's shapes, and every block of the content list is non-blank after trimming.
\<close>

theorem classification_invariant:
  "(fst (get_slide_content slide) = []
      \<or> (\<exists>s \<in> set slide. fst (get_slide_content slide) = get_text_from_shape s))
   \<and> (\<forall>b \<in> set (snd (get_slide_content slide)). strip b \<noteq> [])"
proof -
  have "list_all (\<lambda>b. strip b \<noteq> []) (snd (shapes_loop slide [] []))"
    by (rule shapes_loop_content_nonblank) simp
  then have "\<forall>b \<in> set (snd (get_slide_content slide)). strip b \<noteq> []"
    by (simp add: get_slide_content_def list_all_iff)
  with shapes_loop_title_origin [of slide "[]" "[]"] show ?thesis
    by (simp add: get_slide_content_def)
qed

theorem classification_invariant_witness:
  "get_slide_content
     [text_shape (Some 1) (ascii ''A''), text_shape (Some 17) [32],
      text_shape (Some 17) (ascii ''B'')]
     = (ascii ''A'', [ascii ''B''])
   \<and> strip (ascii ''B'') \<noteq> []"
proof -
  have g: "get_slide_content
     [text_shape (Some 1) (ascii ''A''), text_shape (Some 17) [32],
      text_shape (Some 17) (ascii ''B'')]
     = (ascii ''A'', [ascii ''B''])"
    by (simp add: get_slide_content_def text_shape_def get_text_from_shape_def
        strip_def isspace_def ascii_def)
  from classification_invariant [of
      "[text_shape (Some 1) (ascii ''A''), text_shape (Some 17) [32],
        text_shape (Some 17) (ascii ''B'')]"] g
  show ?thesis by simp
qed

section \<open>Properties of the renderer\<close>

lemma set_strip_subset: "set (strip s) \<subseteq> set s"
proof -
  have "set (strip s) \<subseteq> set (dropWhile isspace s)"
    unfolding strip_def using set_dropWhileD [of _ isspace "rev (dropWhile isspace s)"] by auto
  also have "\<dots> \<subseteq> set s" using set_dropWhileD [of _ isspace s] by auto
  finally show ?thesis .
qed




lemma concat_list_item:
  "concat (map list_item lines) =
     map (\<lambda>l. ascii ''<li>'' @ escape_html (re_sub_bullet l) @ ascii ''</li>'')
       (filter (\<lambda>l. l \<noteq> []) (map strip lines))"
  by (induction lines) (simp_all add: list_item_def Let_def)

lemma render_item_no_heading: "p \<in> set (render_item item) \<Longrightarrow> \<not> is_heading p"
  by (auto simp add: render_item_def Let_def concat_list_item is_heading_def ascii_def
      split: if_splits)






text \<open>
  C6, as stated, fails for a slide with an empty title: the heading is emitted under
  \<open>if title:\<close>, so the first slide of a deck, when it has no text shape, carries the class
  \<open>title-slide\<close> and no \<open><h1>\<close> at all.
\<close>

theorem empty_title_counterexample:
  "is_title_slide 1 1 (fst (get_slide_content []))
   \<and> render_slide 1 1 [] =
       [ascii ''<div class=\"slide title-slide\">'',
        ascii ''<div class=\"slide-number\">Slide 1 of 1</div>'', ascii ''</div>'']
   \<and> \<not> list_ex (prefix (ascii ''<h1>'')) (render_slide 1 1 [])"
  by (simp add: render_slide_def is_title_slide_def get_slide_content_def str_nat.simps
      ascii_def)

text \<open>
  C6, amended: slide \<open>i\<close> of \<open>n\<close> with classified title \<open>t\<close> opens with the class
  \<open>title-slide\<close> if and only if \<open>i = 1\<close>, \<open>i = n\<close>, or \<open>t\<close> contains \<open>Thank You\<close> or
  \<open>Questions\<close>, and with the plain class \<open>slide\<close> otherwise; when \<open>t\<close> is not empty its
  heading, the third part of the slide, is \<open><h1>\<close> under the same condition and
  \<open><h2 class="slide-title">\<close> otherwise; when \<open>t\<close> is empty the slide has no heading.
\<close>

theorem slide_style:
  "hd (render_slide i n slide) =
     (if i = 1 \<or> i = n \<or> contains (ascii ''Thank You'') (fst (get_slide_content slide))
         \<or> contains (ascii ''Questions'') (fst (get_slide_content slide))
      then ascii ''<div class=\"slide title-slide\">'' else ascii ''<div class=\"slide\">'')
   \<and> (fst (get_slide_content slide) \<noteq> [] \<longrightarrow>
        render_slide i n slide ! 2 =
          (if i = 1 \<or> i = n \<or> contains (ascii ''Thank You'') (fst (get_slide_content slide))
              \<or> contains (ascii ''Questions'') (fst (get_slide_content slide))
           then ascii ''<h1>'' @ escape_html (fst (get_slide_content slide)) @ ascii ''</h1>''
           else ascii ''<h2 class=\"slide-title\">''
                  @ escape_html (fst (get_slide_content slide)) @ ascii ''</h2>''))
   \<and> (fst (get_slide_content slide) = [] \<longrightarrow>
        \<not> list_ex is_heading (render_slide i n slide))"
proof -
  obtain t c where tc: "get_slide_content slide = (t, c)"
    by (cases "get_slide_content slide")
  have a: "hd (render_slide i n slide) =
     (if i = 1 \<or> i = n \<or> contains (ascii ''Thank You'') t \<or> contains (ascii ''Questions'') t
      then ascii ''<div class=\"slide title-slide\">'' else ascii ''<div class=\"slide\">'')"
    using tc by (simp add: render_slide_def is_title_slide_def ascii_def Let_def)
  have b: "render_slide i n slide ! 2 =
          (if i = 1 \<or> i = n \<or> contains (ascii ''Thank You'') t \<or> contains (ascii ''Questions'') t
           then ascii ''<h1>'' @ escape_html t @ ascii ''</h1>''
           else ascii ''<h2 class=\"slide-title\">'' @ escape_html t @ ascii ''</h2>'')"
    if "t \<noteq> []"
    using tc that by (simp add: render_slide_def is_title_slide_def Let_def)
  have c: "\<not> list_ex is_heading (render_slide i n slide)" if "t = []"
    using tc that render_item_no_heading
    by (auto simp add: render_slide_def Let_def list_ex_iff is_heading_def ascii_def)
  from a b c tc show ?thesis by simp
qed

theorem slide_style_witness:
  "hd (render_slide 2 3 [text_shape (Some 1) (ascii ''A'')]) = ascii ''<div class=\"slide\">''
   \<and> render_slide 2 3 [text_shape (Some 1) (ascii ''A'')] ! 2
       = ascii ''<h2 class=\"slide-title\">A</h2>''
   \<and> hd (render_slide 3 3 [text_shape (Some 1) (ascii ''A'')])
       = ascii ''<div class=\"slide title-slide\">''
   \<and> render_slide 3 3 [text_shape (Some 1) (ascii ''A'')] ! 2 = ascii ''<h1>A</h1>''
   \<and> \<not> list_ex is_heading (render_slide 2 3 [])"
proof -
  have t: "fst (get_slide_content [text_shape (Some 1) (ascii ''A'')]) = ascii ''A''"
    by (simp add: get_slide_content_def example_shapes text_shape_def get_text_from_shape_def)
  have e: "fst (get_slide_content []) = []"
    by (simp add: get_slide_content_def)
  have n: "ascii ''A'' \<noteq> []" "\<not> contains (ascii ''Thank You'') (ascii ''A'')"
    "\<not> contains (ascii ''Questions'') (ascii ''A'')" "escape_html (ascii ''A'') = ascii ''A''"
    by (simp_all add: ascii_def escape_html_def replace_single)
  have j: "ascii ''<h2 class=\"slide-title\">'' @ ascii ''A'' @ ascii ''</h2>''
             = ascii ''<h2 class=\"slide-title\">A</h2>''"
    "ascii ''<h1>'' @ ascii ''A'' @ ascii ''</h1>'' = ascii ''<h1>A</h1>''"
    by (simp_all add: ascii_def)
  from slide_style [of 2 3 "[text_shape (Some 1) (ascii ''A'')]"] t n j
  have s2: "hd (render_slide 2 3 [text_shape (Some 1) (ascii ''A'')]) = ascii ''<div class=\"slide\">''
   \<and> render_slide 2 3 [text_shape (Some 1) (ascii ''A'')] ! 2
       = ascii ''<h2 class=\"slide-title\">A</h2>''"
    by simp
  from slide_style [of 3 3 "[text_shape (Some 1) (ascii ''A'')]"] t n j
  have s3: "hd (render_slide 3 3 [text_shape (Some 1) (ascii ''A'')])
       = ascii ''<div class=\"slide title-slide\">''
   \<and> render_slide 3 3 [text_shape (Some 1) (ascii ''A'')] ! 2 = ascii ''<h1>A</h1>''"
    by simp
  from slide_style [of 2 3 "[]"] e
  have s0: "\<not> list_ex is_heading (render_slide 2 3 [])"
    by blast
  from s2 s3 s0 show ?thesis by blast
qed

section \<open>Properties of the script\<close>



section \<open>Properties of the deck\<close>

lemmas content_lists =
  tech_stack_def arch_overview_def arch_layers_def arch_business_def collections_intro_def
  insurance_collection_def users_collection_def bookings_collection_def tools_intro_def
  list_insurance_def suggest_insurance_def book_insurance_def list_booking_def queries_def
  cache_intro_def cache_details_def cache_benefits_def system_init_def request_flow_def
  error_handling_def performance_def security_def core_services_def configuration_def
  utilities_def widgets_def summary_def

lemma add_paragraphs_ascii:
  "\<not> isspace (of_char c) \<Longrightarrow> add_paragraphs (ascii (c # cs) # items) \<noteq> []"
proof -
  assume c: "\<not> isspace (of_char c)"
  have "dropWhile isspace (ascii (c # cs)) = ascii (c # cs)"
    using c by (simp add: ascii_def)
  then have "strip (ascii (c # cs)) \<noteq> []"
    using c by (simp add: strip_def ascii_def)
  then show ?thesis by (simp add: add_paragraphs_def)
qed

lemma content_lists_nonempty:
  "add_paragraphs tech_stack \<noteq> []" "add_paragraphs arch_overview \<noteq> []"
  "add_paragraphs arch_layers \<noteq> []" "add_paragraphs arch_business \<noteq> []"
  "add_paragraphs collections_intro \<noteq> []" "add_paragraphs insurance_collection \<noteq> []"
  "add_paragraphs users_collection \<noteq> []" "add_paragraphs bookings_collection \<noteq> []"
  "add_paragraphs tools_intro \<noteq> []" "add_paragraphs list_insurance \<noteq> []"
  "add_paragraphs suggest_insurance \<noteq> []" "add_paragraphs book_insurance \<noteq> []"
  "add_paragraphs list_booking \<noteq> []" "add_paragraphs queries \<noteq> []"
  "add_paragraphs cache_intro \<noteq> []" "add_paragraphs cache_details \<noteq> []"
  "add_paragraphs cache_benefits \<noteq> []" "add_paragraphs system_init \<noteq> []"
  "add_paragraphs request_flow \<noteq> []" "add_paragraphs error_handling \<noteq> []"
  "add_paragraphs performance \<noteq> []" "add_paragraphs security \<noteq> []"
  "add_paragraphs core_services \<noteq> []" "add_paragraphs configuration \<noteq> []"
  "add_paragraphs utilities \<noteq> []" "add_paragraphs widgets \<noteq> []"
  "add_paragraphs summary \<noteq> []"
  unfolding content_lists by (rule add_paragraphs_ascii, simp add: isspace_def)+

lemma layout_add_title_slide:
  "map layout (add_title_slide prs t s) = map layout prs @ [0]"
  by (simp add: add_title_slide_def)

lemma layout_add_content_slide:
  "map layout (add_content_slide prs t items) = map layout prs @ [1]"
  by (simp add: add_content_slide_def)

lemma deck_layouts:
  "map layout (create_presentation today) = 0 # replicate 27 1 @ [0]"
  unfolding create_presentation_def Let_def
  by (simp add: layout_add_title_slide layout_add_content_slide numeral_eq_Suc)

lemma content_slide_kinds:
  "\<forall>s \<in> set prs. (layout s = 0 \<and> (\<exists>t. bodies s = [Text t])) \<or>
                    (layout s = 1 \<and> (\<exists>ps. bodies s = [Paragraphs ps] \<and> ps \<noteq> [])) \<Longrightarrow>
   add_paragraphs items \<noteq> [] \<Longrightarrow>
   \<forall>s \<in> set (add_content_slide prs t items).
      (layout s = 0 \<and> (\<exists>t. bodies s = [Text t])) \<or>
      (layout s = 1 \<and> (\<exists>ps. bodies s = [Paragraphs ps] \<and> ps \<noteq> []))"
  by (simp add: add_content_slide_def)

lemma title_slide_kinds:
  "\<forall>s \<in> set prs. (layout s = 0 \<and> (\<exists>t. bodies s = [Text t])) \<or>
                    (layout s = 1 \<and> (\<exists>ps. bodies s = [Paragraphs ps] \<and> ps \<noteq> [])) \<Longrightarrow>
   \<forall>s \<in> set (add_title_slide prs t sub).
      (layout s = 0 \<and> (\<exists>t. bodies s = [Text t])) \<or>
      (layout s = 1 \<and> (\<exists>ps. bodies s = [Paragraphs ps] \<and> ps \<noteq> []))"
  by (simp add: add_title_slide_def)

lemma deck_kinds:
  "\<forall>s \<in> set (create_presentation today).
      (layout s = 0 \<and> (\<exists>t. bodies s = [Text t])) \<or>
      (layout s = 1 \<and> (\<exists>ps. bodies s = [Paragraphs ps] \<and> ps \<noteq> []))"
  unfolding create_presentation_def Let_def
  by (intro title_slide_kinds content_slide_kinds content_lists_nonempty) simp

lemma two_column_slide:
  "last (add_two_column_slide prs t left_items right_items) =
     \<lparr>layout = 3, title_text = clean_text t,
      bodies = [Paragraphs (add_paragraphs left_items),
                Paragraphs (add_paragraphs right_items)]\<rparr>"
  by (simp add: add_two_column_slide_def)

lemma hd_add_title_slide: "prs \<noteq> [] \<Longrightarrow> hd (add_title_slide prs t s) = hd prs"
  by (simp add: add_title_slide_def)

lemma hd_add_content_slide: "prs \<noteq> [] \<Longrightarrow> hd (add_content_slide prs t items) = hd prs"
  by (simp add: add_content_slide_def)

lemma add_title_slide_nonempty: "add_title_slide prs t s \<noteq> []"
  by (simp add: add_title_slide_def)

lemma add_content_slide_nonempty: "add_content_slide prs t items \<noteq> []"
  by (simp add: add_content_slide_def)

lemma deck_first:
  "hd (create_presentation today) =
     \<lparr>layout = 0, title_text = ascii ''InsureMate Project Analysis'',
      bodies = [Text (ascii ''Comprehensive Insurance Management System'' @ [10]
                      @ ascii ''Technical Documentation'' @ [10, 10]
                      @ ascii ''Generated: '' @ today @ [10]
                      @ ascii ''Author: Geetha Charu Mathi'')]\<rparr>"
  unfolding create_presentation_def Let_def
  by (simp add: hd_add_title_slide hd_add_content_slide add_title_slide_nonempty
        add_content_slide_nonempty)
    (simp add: add_title_slide_def)

lemma deck_last:
  "last (create_presentation today) =
     \<lparr>layout = 0, title_text = ascii ''Thank You'',
      bodies = [Text (ascii ''Questions & Discussion'')]\<rparr>"
  unfolding create_presentation_def Let_def
  by (simp add: add_title_slide_def)


text \<open>
  C3, as stated, fails: \<open>add_two_column_slide\<close> is defined and never called, so on no day
  does the deck hold exactly one slide of the two-column layout (layout 3); it holds none.
\<close>

theorem no_two_column_slide_counterexample:
  "\<not> (\<exists>today. length (filter (\<lambda>s. layout s = 3) (create_presentation today)) = 1)"
proof -
  have "length (filter (\<lambda>s. layout s = 3) (create_presentation today))
          = length (filter (\<lambda>l. l = 3) (map layout (create_presentation today)))" for today
    by (simp add: filter_map o_def)
  then show ?thesis
    by (simp add: deck_layouts)
qed

text \<open>
  C3, amended: on every day the deck has 29 slides: a title slide (layout 0) with the
  title \<open>InsureMate Project Analysis\<close> and a subtitle that carries the date, 27 content
  slides (layout 1), and a closing title slide \<open>Thank You\<close>; every slide is a title slide
  with one subtitle text or a content slide whose placeholder received at least one
  paragraph, so none is a two-column slide.
\<close>

theorem deck_slides:
  "map layout (create_presentation today) = 0 # replicate 27 1 @ [0]
   \<and> hd (create_presentation today) =
       \<lparr>layout = 0, title_text = ascii ''InsureMate Project Analysis'',
        bodies = [Text (ascii ''Comprehensive Insurance Management System'' @ [10]
                        @ ascii ''Technical Documentation'' @ [10, 10]
                        @ ascii ''Generated: '' @ today @ [10]
                        @ ascii ''Author: Geetha Charu Mathi'')]\<rparr>
   \<and> last (create_presentation today) =
       \<lparr>layout = 0, title_text = ascii ''Thank You'',
        bodies = [Text (ascii ''Questions & Discussion'')]\<rparr>
   \<and> (\<forall>s \<in> set (create_presentation today).
         (layout s = 0 \<and> (\<exists>t. bodies s = [Text t])) \<or>
         (layout s = 1 \<and> (\<exists>ps. bodies s = [Paragraphs ps] \<and> ps \<noteq> [])))"
  using deck_layouts [of today] deck_first [of today] deck_last [of today]
    deck_kinds [of today]
  by (intro conjI)

theorem deck_slides_witness:
  "length (create_presentation (ascii ''January 01, 2025'')) = 29
   \<and> layout (create_presentation (ascii ''January 01, 2025'') ! 1) = 1
   \<and> (\<exists>ps. bodies (create_presentation (ascii ''January 01, 2025'') ! 1) = [Paragraphs ps]
            \<and> ps \<noteq> [])"
proof -
  define deck where "deck = create_presentation (ascii ''January 01, 2025'')"
  note d = deck_slides [of "ascii ''January 01, 2025''", folded deck_def]
  have m: "map layout deck = 0 # replicate 27 1 @ [0]"
    by (rule d [THEN conjunct1])
  have "length (map layout deck) = 29"
    unfolding m by simp
  then have n: "length deck = 29" by simp
  have "map layout deck ! 1 = 1"
    unfolding m by (simp add: numeral_eq_Suc)
  then have l: "layout (deck ! 1) = 1" using n by simp
  have "deck ! 1 \<in> set deck" using n by simp
  with d [THEN conjunct2, THEN conjunct2, THEN conjunct2]
  have "(layout (deck ! 1) = 0 \<and> (\<exists>t. bodies (deck ! 1) = [Text t])) \<or>
        (layout (deck ! 1) = 1 \<and> (\<exists>ps. bodies (deck ! 1) = [Paragraphs ps] \<and> ps \<noteq> []))"
    by (rule bspec)
  with l have "\<exists>ps. bodies (deck ! 1) = [Paragraphs ps] \<and> ps \<noteq> []" by simp
  with n l show ?thesis unfolding deck_def by simp
qed

end
